theory Spec2Isabelle
  imports Complex_Main "HOL-Library.Sublist"
begin

section \<open>Python strings and values\<close>

text \<open>
  A Python \<open>str\<close> is modelled as a \<open>string\<close>: one \<open>char\<close> per code point, so the
  model covers the code points below 256 and \<open>length\<close> is Python's \<open>len\<close>.
  \<open>str.strip()\<close> removes leading and trailing whitespace; below 256 the code points
  Python counts as whitespace are 9..13, 28..32, 133 and 160.
\<close>

definition isspace :: "char \<Rightarrow> bool" where
  "isspace c =
     (let n = (of_char c :: nat)
      in (9 \<le> n \<and> n \<le> 13) \<or> (28 \<le> n \<and> n \<le> 32) \<or> n = 133 \<or> n = 160)"

definition strip :: "string \<Rightarrow> string" where
  "strip s = rev (dropWhile isspace (rev (dropWhile isspace s)))"

text \<open>
  \<open>xs[i:]\<close>: a negative start counts from the end, and a start outside the list is
  clamped to it; the slice never raises.
\<close>

definition slice_from :: "int \<Rightarrow> 'a list \<Rightarrow> 'a list" where
  "slice_from i xs =
     (let n = int (length xs);
          j = (if i < 0 then max 0 (n + i) else min i n)
      in drop (nat j) xs)"

text \<open>\<open>sub in s\<close> on strings: \<open>sub\<close> occurs in \<open>s\<close> as a contiguous run.\<close>

fun str_contains :: "string \<Rightarrow> string \<Rightarrow> bool" where
  "str_contains sub [] = (sub = [])"
| "str_contains sub (c # cs) = (prefix sub (c # cs) \<or> str_contains sub cs)"

text \<open>
  \<open>s.split(sep)[0]\<close> for a non-empty \<open>sep\<close>: the text before the leftmost occurrence
  of \<open>sep\<close>, and all of \<open>s\<close> when \<open>sep\<close> does not occur.
\<close>

fun split_first :: "string \<Rightarrow> string \<Rightarrow> string" where
  "split_first sep [] = []"
| "split_first sep (c # cs) = (if prefix sep (c # cs) then [] else c # split_first sep cs)"

text \<open>\<open>str(n)\<close> for a non-negative integer: its decimal digits.\<close>

fun str_of_nat :: "nat \<Rightarrow> string" where
  "str_of_nat n =
     (if n < 10 then [''0123456789'' ! n]
      else str_of_nat (n div 10) @ [''0123456789'' ! (n mod 10)])"

section \<open>The prompt builder: \<open>get_prompt\<close> of llama2_wrapper/model.py\<close>

type_synonym turn = "string \<times> string"

text \<open>The \<open>for user_input, response in chat_history\<close> loop, with \<open>prompt\<close> as accumulator.\<close>

fun get_prompt_loop :: "string \<Rightarrow> turn list \<Rightarrow> string" where
  "get_prompt_loop prompt [] = prompt"
| "get_prompt_loop prompt ((user_input, response) # chat_history) =
     get_prompt_loop
       (prompt @ ''<s>Human: '' @ strip user_input @ ''\<newline></s><s>Assistant: ''
          @ strip response @ ''\<newline></s>'')
       chat_history"

definition get_prompt :: "string \<Rightarrow> turn list \<Rightarrow> string \<Rightarrow> string" where
  "get_prompt message chat_history system_prompt =
     (let prompt = get_prompt_loop [] chat_history;
          prompt = prompt @ ''<s>Human: '' @ strip message @ ''\<newline></s><s>Assistant: '';
          prompt = slice_from (- 2048) prompt
      in if length system_prompt > 0
         then ''<s>System: '' @ strip system_prompt @ ''\<newline></s>'' @ prompt
         else prompt)"

subsection \<open>The prompt as the specification describes it\<close>

text \<open>
  The specification speaks of one formatted block per turn of the history, a final open
  block for the new message, an optional system block, and of the last 2048 characters
  of the turns. These definitions follow its words; the theorems below compare them
  with \<open>get_prompt\<close>.
\<close>

definition turn_block :: "turn \<Rightarrow> string" where
  "turn_block t =
     ''<s>Human: '' @ strip (fst t) @ ''\<newline></s><s>Assistant: '' @ strip (snd t)
       @ ''\<newline></s>''"

definition open_block :: "string \<Rightarrow> string" where
  "open_block m = ''<s>Human: '' @ strip m @ ''\<newline></s><s>Assistant: ''"

definition turns_portion :: "turn list \<Rightarrow> string \<Rightarrow> string" where
  "turns_portion H m = concat (map turn_block H) @ open_block m"

definition system_block :: "string \<Rightarrow> string" where
  "system_block s = ''<s>System: '' @ strip s @ ''\<newline></s>''"

definition last_chars :: "nat \<Rightarrow> string \<Rightarrow> string" where
  "last_chars n s = rev (take n (rev s))"

section \<open>The wrapper configuration and model loading\<close>

text \<open>
  The configuration is a Python \<open>dict\<close> from option names to values. \<open>config.get(k, d)\<close>
  returns \<open>d\<close> for a missing key, and an \<open>if\<close> tests the truthiness of what it got.
\<close>

datatype pyval = PNone | PBool bool | PInt int | PStr string

fun truthy :: "pyval \<Rightarrow> bool" where
  "truthy PNone = False"
| "truthy (PBool b) = b"
| "truthy (PInt i) = (i \<noteq> 0)"
| "truthy (PStr s) = (s \<noteq> [])"

type_synonym config = "string \<rightharpoonup> pyval"

definition config_get :: "config \<Rightarrow> string \<Rightarrow> pyval \<Rightarrow> pyval" where
  "config_get cfg k d = (case cfg k of None \<Rightarrow> d | Some v \<Rightarrow> v)"

text \<open>
  \<open>create_llama2_model\<close> calls one of three external loaders. The model records which
  loader is called and with which arguments taken from the configuration.
\<close>

datatype model_load =
    Llama pyval pyval pyval
  | AutoGPTQ_from_quantized pyval
  | AutoModel_from_pretrained pyval pyval

definition create_llama2_model :: "config \<Rightarrow> model_load" where
  "create_llama2_model cfg =
     (let model_name = config_get cfg ''model_name'' PNone;
          load_in_8bit = config_get cfg ''load_in_8bit'' (PBool True);
          load_in_4bit = config_get cfg ''load_in_4bit'' (PBool False);
          llama_cpp = config_get cfg ''llama_cpp'' (PBool False)
      in if truthy llama_cpp
         then Llama model_name (config_get cfg ''MAX_INPUT_TOKEN_LENGTH'' PNone)
                (config_get cfg ''MAX_INPUT_TOKEN_LENGTH'' PNone)
         else if truthy load_in_4bit then AutoGPTQ_from_quantized model_name
         else AutoModel_from_pretrained model_name load_in_8bit)"

section \<open>The generation engine adapter: \<open>LLAMA2_WRAPPER\<close>\<close>

text \<open>
  The backend's generator hands out Python values. llama.cpp yields token ids; the loop
  also compares each token with the string \<open>'</s>'\<close>, so a token is either an id or a
  string, and an id never equals a string.
\<close>

datatype token = TokId int | TokStr string

text \<open>
  The external model and tokenizer objects, as far as the wrapper uses them. A generator
  or streamer is the finite sequence of items it hands out before it is exhausted;
  a consumer that breaks out of its loop leaves the rest unread.
  \<^item> \<open>model_tokenize\<close>: \<open>self.model.tokenize(bytes(prompt, "utf-8"))\<close>;
  \<^item> \<open>model_generate inputs top_p top_k temp\<close>: the tokens of
    \<open>self.model.generate(inputs, top_p=.., top_k=.., temp=..)\<close>;
  \<^item> \<open>model_detokenize\<close>: \<open>str(self.model.detokenize(new_tokens), encoding="utf-8")\<close>,
    \<open>None\<close> when either call raises;
  \<^item> \<open>model_token_eos\<close>: \<open>self.model.token_eos()\<close>;
  \<^item> \<open>tokenizer_length\<close>: the last dimension of the transformers tokenizer's input ids;
  \<^item> \<open>streamer_texts prompt max_new_tokens top_p top_k temperature\<close>: the increments of
    the \<open>TextIteratorStreamer\<close> fed by the background \<open>model.generate\<close> call.
\<close>

record engine =
  model_tokenize :: "string \<Rightarrow> token list"
  model_generate :: "token list \<Rightarrow> real \<Rightarrow> int \<Rightarrow> real \<Rightarrow> token list"
  model_detokenize :: "token list \<Rightarrow> string option"
  model_token_eos :: token
  tokenizer_length :: "string \<Rightarrow> nat"
  streamer_texts :: "string \<Rightarrow> int \<Rightarrow> real \<Rightarrow> int \<Rightarrow> real \<Rightarrow> string list"

definition get_token_length :: "config \<Rightarrow> engine \<Rightarrow> string \<Rightarrow> nat" where
  "get_token_length cfg eng prompt =
     (if truthy (config_get cfg ''llama_cpp'' PNone)
      then length (model_tokenize eng prompt)
      else tokenizer_length eng prompt)"

definition get_input_token_length ::
    "config \<Rightarrow> engine \<Rightarrow> string \<Rightarrow> turn list \<Rightarrow> string \<Rightarrow> nat" where
  "get_input_token_length cfg eng message chat_history system_prompt =
     get_token_length cfg eng (get_prompt message chat_history system_prompt)"

text \<open>
  The \<open>try\<close> block of the llama.cpp loop: the token is appended to \<open>new_tokens\<close>, the
  pending tokens are decoded and appended to \<open>answer_message\<close>, and \<open>new_tokens\<close> is
  reset. When decoding raises, the bare \<open>except\<close> keeps \<open>answer_message\<close> and leaves the
  token pending. The result is \<open>(answer_message, new_tokens)\<close>.
\<close>

definition decode_step ::
    "(token list \<Rightarrow> string option) \<Rightarrow> string \<Rightarrow> token list \<Rightarrow> token \<Rightarrow> string \<times> token list" where
  "decode_step detok answer_message new_tokens tok =
     (case detok (new_tokens @ [tok]) of
        Some b_text \<Rightarrow> (answer_message @ b_text, [])
      | None \<Rightarrow> (answer_message, new_tokens @ [tok]))"

text \<open>
  The \<open>for token in generator\<close> loop of the llama.cpp branch. The result is the list of
  the strings it yields, in order; a \<open>break\<close> ends the list.
\<close>

fun llama_cpp_loop ::
    "(token list \<Rightarrow> string option) \<Rightarrow> token \<Rightarrow> string \<Rightarrow> token list \<Rightarrow> token list \<Rightarrow> string list" where
  "llama_cpp_loop detok eos answer_message new_tokens [] = []"
| "llama_cpp_loop detok eos answer_message new_tokens (tok # generator) =
     (if tok \<noteq> TokStr ''</s>'' then
        (case decode_step detok answer_message new_tokens tok of
           (answer_message', new_tokens') \<Rightarrow>
             if str_contains ''Human:'' answer_message'
             then [split_first ''Human:'' answer_message']
             else if tok = eos then [answer_message']
             else answer_message' # llama_cpp_loop detok eos answer_message' new_tokens' generator)
      else [answer_message])"

text \<open>
  The \<open>for text in streamer\<close> loop of the transformers branch: each increment is appended
  to \<open>outputs\<close> and the joined \<open>outputs\<close> are yielded.
\<close>

fun streamer_loop :: "string list \<Rightarrow> string list \<Rightarrow> string list" where
  "streamer_loop outputs [] = []"
| "streamer_loop outputs (txt # streamer) =
     concat (outputs @ [txt]) # streamer_loop (outputs @ [txt]) streamer"

definition generate ::
    "config \<Rightarrow> engine \<Rightarrow> string \<Rightarrow> int \<Rightarrow> real \<Rightarrow> real \<Rightarrow> int \<Rightarrow> string list" where
  "generate cfg eng prompt max_new_tokens temperature top_p top_k =
     (if truthy (config_get cfg ''llama_cpp'' PNone)
      then llama_cpp_loop (model_detokenize eng) (model_token_eos eng) [] []
             (model_generate eng (model_tokenize eng prompt) top_p top_k temperature)
      else streamer_loop []
             (streamer_texts eng prompt max_new_tokens top_p top_k temperature))"

definition run ::
    "config \<Rightarrow> engine \<Rightarrow> string \<Rightarrow> turn list \<Rightarrow> string \<Rightarrow> int \<Rightarrow> real \<Rightarrow> real \<Rightarrow> int
      \<Rightarrow> string list" where
  "run cfg eng message chat_history system_prompt max_new_tokens temperature top_p top_k =
     generate cfg eng (get_prompt message chat_history system_prompt)
       max_new_tokens temperature top_p top_k"

text \<open>
  The value of \<open>answer_message\<close> (with the pending tokens) after the loop body has
  consumed a run of tokens, the stop conditions left aside: a token equal to \<open>'</s>'\<close>
  skips the \<open>try\<close> block, every other token goes through it. This is the accumulated
  answer the stop conditions are checked against.
\<close>

definition accumulated ::
    "(token list \<Rightarrow> string option) \<Rightarrow> string \<times> token list \<Rightarrow> token list \<Rightarrow> string" where
  "accumulated detok st toks =
     fst (foldl (\<lambda>(answer_message, new_tokens) tok.
                   if tok \<noteq> TokStr ''</s>''
                   then decode_step detok answer_message new_tokens tok
                   else (answer_message, new_tokens)) st toks)"

section \<open>The streaming session: app_4bit_ggml.py\<close>

text \<open>
  The module-level settings. \<open>MAX_MAX_NEW_TOKENS\<close> and \<open>MODEL_PATH\<close> come from the
  command line; \<open>MAX_INPUT_TOKEN_LENGTH\<close> and the wrapper's configuration are constants
  of the module. \<open>llama2_wrapper\<close> stands for the loaded model object.
\<close>

record app =
  MAX_MAX_NEW_TOKENS :: int
  MODEL_PATH :: string
  llama2_wrapper :: engine

definition MAX_INPUT_TOKEN_LENGTH :: nat where
  "MAX_INPUT_TOKEN_LENGTH = 4000"

definition app_config :: "app \<Rightarrow> config" where
  "app_config a =
     [''model_name'' \<mapsto> PStr (MODEL_PATH a),
      ''load_in_8bit'' \<mapsto> PBool False,
      ''load_in_4bit'' \<mapsto> PBool True,
      ''llama_cpp'' \<mapsto> PBool True,
      ''MAX_INPUT_TOKEN_LENGTH'' \<mapsto> PInt (int MAX_INPUT_TOKEN_LENGTH)]"

datatype exn = ValueError | GrError string

definition clear_and_save_textbox :: "string \<Rightarrow> string \<times> string" where
  "clear_and_save_textbox message = ([], message)"

definition display_input :: "string \<Rightarrow> turn list \<Rightarrow> turn list" where
  "display_input message history = history @ [(message, [])]"

text \<open>\<open>history.pop()\<close> raises \<open>IndexError\<close> on an empty list, which the function catches.\<close>

definition delete_prev_fn :: "turn list \<Rightarrow> turn list \<times> string" where
  "delete_prev_fn history =
     (case rev history of
        [] \<Rightarrow> (history, [])
      | (message, _) # _ \<Rightarrow> (butlast history, message))"

text \<open>
  A call of the wrapper's \<open>run\<close>, by its arguments: message, history, system prompt,
  max_new_tokens, temperature, top_p, top_k.
\<close>

type_synonym run_call = "string \<times> turn list \<times> string \<times> int \<times> real \<times> real \<times> int"

text \<open>
  What a consumer that drains a generator sees: the values yielded, in order, the
  exception that ended it (if one did), and, as a log, the calls of the wrapper's
  \<open>run\<close> made on the way.
\<close>

record drained =
  yielded :: "turn list list"
  raised :: "exn option"
  run_calls :: "run_call list"

text \<open>
  The module's \<open>generate\<close> (named \<open>session_generate\<close> here, since the wrapper's method
  has the same name). \<open>history_with_input[:-1]\<close> is \<open>butlast\<close>, also on the empty list.
  \<open>next(generator)\<close> raises \<open>StopIteration\<close> exactly when the wrapper yields nothing.
\<close>

definition session_generate ::
    "app \<Rightarrow> string \<Rightarrow> turn list \<Rightarrow> string \<Rightarrow> int \<Rightarrow> real \<Rightarrow> real \<Rightarrow> int \<Rightarrow> drained" where
  "session_generate a message history_with_input system_prompt max_new_tokens
       temperature top_p top_k =
     (if max_new_tokens > MAX_MAX_NEW_TOKENS a
      then \<lparr>yielded = [], raised = Some ValueError, run_calls = []\<rparr>
      else
        (let history = butlast history_with_input;
             generator = run (app_config a) (llama2_wrapper a) message history system_prompt
                           max_new_tokens temperature top_p top_k
         in \<lparr>yielded =
               (case generator of
                  [] \<Rightarrow> [history @ [(message, [])]]
                | first_response # others \<Rightarrow>
                    (history @ [(message, first_response)])
                      # map (\<lambda>response. history @ [(message, response)]) others),
             raised = None,
             run_calls = [(message, history, system_prompt, max_new_tokens,
                           temperature, top_p, top_k)]\<rparr>))"

definition check_input_token_length ::
    "app \<Rightarrow> string \<Rightarrow> turn list \<Rightarrow> string \<Rightarrow> exn option" where
  "check_input_token_length a message chat_history system_prompt =
     (let input_token_length =
            get_input_token_length (app_config a) (llama2_wrapper a)
              message chat_history system_prompt
      in if input_token_length > MAX_INPUT_TOKEN_LENGTH
         then Some (GrError
                (''The accumulated input is too long ('' @ str_of_nat input_token_length
                   @ '' > '' @ str_of_nat MAX_INPUT_TOKEN_LENGTH
                   @ ''). Clear your chat history and try again.''))
         else None)"

subsection \<open>The event chains\<close>

text \<open>
  The values of the interface's components that the handlers read and write.
\<close>

record ui =
  textbox :: string
  saved_input :: string
  chatbot :: "turn list"
  system_prompt_box :: string
  max_new_tokens_slider :: int
  temperature_slider :: real
  top_p_slider :: real
  top_k_slider :: int

text \<open>
  What one event chain did: the errors shown to the user, the transcripts streamed to
  the chatbot by \<open>generate\<close>, the calls of the wrapper's \<open>run\<close>, and the components'
  values when the chain has ended. A handler that raises writes none of its outputs;
  the outputs of the handlers before it stay written.
\<close>

record outcome =
  shown_errors :: "exn list"
  streamed :: "turn list list"
  engine_calls :: "run_call list"
  ui_after :: ui

definition generate_step :: "app \<Rightarrow> ui \<Rightarrow> outcome" where
  "generate_step a u =
     (let d = session_generate a (saved_input u) (chatbot u) (system_prompt_box u)
                (max_new_tokens_slider u) (temperature_slider u) (top_p_slider u)
                (top_k_slider u)
      in \<lparr>shown_errors = (case raised d of None \<Rightarrow> [] | Some e \<Rightarrow> [e]),
          streamed = yielded d,
          engine_calls = run_calls d,
          ui_after = (if yielded d = [] then u else u\<lparr>chatbot := last (yielded d)\<rparr>)\<rparr>)"

text \<open>
  \<open>textbox.submit\<close> and \<open>submit_button.click\<close> run the same chain:
  \<open>clear_and_save_textbox\<close>, then \<open>display_input\<close>, then \<open>check_input_token_length\<close>,
  and \<open>generate\<close> attached with \<open>.success\<close>, which runs it only when the check did not
  raise.
\<close>

definition submit_event :: "app \<Rightarrow> ui \<Rightarrow> outcome" where
  "submit_event a u =
     (let (tb, saved) = clear_and_save_textbox (textbox u);
          u1 = u\<lparr>textbox := tb, saved_input := saved\<rparr>;
          u2 = u1\<lparr>chatbot := display_input (saved_input u1) (chatbot u1)\<rparr>
      in case check_input_token_length a (saved_input u2) (chatbot u2) (system_prompt_box u2) of
           Some e \<Rightarrow> \<lparr>shown_errors = [e], streamed = [], engine_calls = [], ui_after = u2\<rparr>
         | None \<Rightarrow> generate_step a u2)"

text \<open>
  \<open>retry_button.click\<close> runs \<open>delete_prev_fn\<close>, then \<open>display_input\<close>, then
  \<open>generate\<close>, each attached with \<open>.then\<close>; the chain has no
  \<open>check_input_token_length\<close> step.
\<close>

definition retry_event :: "app \<Rightarrow> ui \<Rightarrow> outcome" where
  "retry_event a u =
     (let (history, message) = delete_prev_fn (chatbot u);
          u1 = u\<lparr>chatbot := history, saved_input := message\<rparr>;
          u2 = u1\<lparr>chatbot := display_input (saved_input u1) (chatbot u1)\<rparr>
      in generate_step a u2)"

section \<open>Concrete engines for the worked examples\<close>

text \<open>A backend whose generator and streamer hand out nothing.\<close>

definition silent_engine :: engine where
  "silent_engine =
     \<lparr>model_tokenize = (\<lambda>prompt. []),
      model_generate = (\<lambda>inputs top_p top_k temp. []),
      model_detokenize = (\<lambda>toks. None),
      model_token_eos = TokId 2,
      tokenizer_length = (\<lambda>prompt. 0),
      streamer_texts = (\<lambda>prompt max_new_tokens top_p top_k temperature. [])\<rparr>"

text \<open>
  A backend that answers every prompt with four tokens. Token 1 decodes to \<open>Sure. \<close>,
  token 2 to \<open>Hum\<close>, token 3 to \<open>an: ignore this\<close>; token 4 alone does not decode.
  Its tokenizer makes one token of every character of the prompt.
\<close>

definition demo_detokenize :: "token list \<Rightarrow> string option" where
  "demo_detokenize toks =
     (if toks = [TokId 1] then Some ''Sure. ''
      else if toks = [TokId 2] then Some ''Hum''
      else if toks = [TokId 3] then Some ''an: ignore this''
      else if toks = [TokId 4] then None
      else Some ''!'')"

definition demo_engine :: engine where
  "demo_engine =
     \<lparr>model_tokenize = map (\<lambda>c. TokId (int (of_char c))),
      model_generate = (\<lambda>inputs top_p top_k temp. [TokId 1, TokId 2, TokId 3, TokId 1]),
      model_detokenize = demo_detokenize,
      model_token_eos = TokId 9,
      tokenizer_length = length,
      streamer_texts = (\<lambda>prompt max_new_tokens top_p top_k temperature.
                          [''Sure'', [], ''.''])\<rparr>"


definition silent_app :: app where
  "silent_app = \<lparr>MAX_MAX_NEW_TOKENS = 2048, MODEL_PATH = ''m'', llama2_wrapper = silent_engine\<rparr>"

definition demo_app :: app where
  "demo_app = \<lparr>MAX_MAX_NEW_TOKENS = 2048, MODEL_PATH = ''m'', llama2_wrapper = demo_engine\<rparr>"

text \<open>
  The interface as it starts, with \<open>Hi\<close> typed into the textbox, the sliders at their
  initial values, and a system prompt of 4100 characters in the system prompt box.
\<close>

definition fresh_ui :: ui where
  "fresh_ui =
     \<lparr>textbox = ''Hi'', saved_input = [], chatbot = [],
      system_prompt_box = replicate 4100 (CHR ''a''),
      max_new_tokens_slider = 1024, temperature_slider = 1,
      top_p_slider = 0.95, top_k_slider = 50\<rparr>"

section \<open>Properties of the prompt builder\<close>

lemma get_prompt_loop_concat:
  "get_prompt_loop acc H = acc @ concat (map turn_block H)"
  by (induction H arbitrary: acc) (auto simp: turn_block_def)

lemma slice_from_neg_long:
  "0 < n \<Longrightarrow> n < length xs \<Longrightarrow> slice_from (- int n) xs = rev (take n (rev xs))"
proof -
  assume "0 < n" "n < length xs"
  then have "slice_from (- int n) xs = drop (length xs - n) xs"
    by (simp add: slice_from_def Let_def nat_diff_distrib')
  then show ?thesis
    by (simp add: take_rev)
qed

lemma slice_from_neg_short:
  "length xs \<le> n \<Longrightarrow> slice_from (- int n) xs = xs"
  by (simp add: slice_from_def Let_def)

lemma get_prompt_turns:
  "get_prompt m H s =
     (if s = [] then [] else system_block s) @ slice_from (- 2048) (turns_portion H m)"
  by (simp add: get_prompt_def get_prompt_loop_concat turns_portion_def open_block_def
      system_block_def)

lemma length_last_chars: "length (last_chars n s) = min n (length s)"
  by (simp add: last_chars_def min.commute)

lemma suffix_last_chars: "suffix (last_chars n s) s"
proof -
  have "last_chars n s = drop (length s - n) s"
    by (simp add: last_chars_def take_rev)
  then show ?thesis
    by (simp add: suffix_drop)
qed

lemma slice_from_keeps_tail:
  assumes "length ys \<le> n"
  shows "\<exists>pre. slice_from (- int n) (xs @ ys) = pre @ ys"
proof -
  define j where "j = (if - int n < 0 then max 0 (int (length (xs @ ys)) + - int n)
                        else min (- int n) (int (length (xs @ ys))))"
  have "nat j \<le> length xs"
    using assms by (auto simp: j_def)
  then have "drop (nat j) (xs @ ys) = drop (nat j) xs @ ys"
    by simp
  moreover have "slice_from (- int n) (xs @ ys) = drop (nat j) (xs @ ys)"
    by (simp add: slice_from_def j_def Let_def)
  ultimately show ?thesis
    by auto
qed

text \<open>
  Claim C1. For every message \<open>m\<close>, history \<open>H\<close> and system prompt \<open>s\<close>, let \<open>T\<close> be the
  formatted turn blocks of \<open>H\<close> followed by the open block for \<open>m\<close>. When \<open>T\<close> has more
  than 2048 characters, \<open>get_prompt\<close> returns exactly the last 2048 characters of \<open>T\<close>
  (a suffix of \<open>T\<close> of length 2048); otherwise it returns \<open>T\<close> whole. In both cases the
  system block is prepended, untruncated, when \<open>s\<close> is not empty.
\<close>

theorem get_prompt_tail_truncation:
  "get_prompt m H s =
     (if s = [] then [] else system_block s) @
     (if 2048 < length (turns_portion H m) then last_chars 2048 (turns_portion H m)
      else turns_portion H m)
   \<and> (2048 < length (turns_portion H m) \<longrightarrow>
        length (last_chars 2048 (turns_portion H m)) = 2048 \<and>
        suffix (last_chars 2048 (turns_portion H m)) (turns_portion H m))"
proof -
  have short: "slice_from (- 2048) (turns_portion H m) = turns_portion H m"
    if "length (turns_portion H m) \<le> 2048"
    using slice_from_neg_short [of "turns_portion H m" 2048] that by simp
  have long: "slice_from (- 2048) (turns_portion H m) = last_chars 2048 (turns_portion H m)"
    if "2048 < length (turns_portion H m)"
    using slice_from_neg_long [of 2048 "turns_portion H m"] that by (simp add: last_chars_def)
  show ?thesis
    using short long
    by (simp add: get_prompt_turns length_last_chars suffix_last_chars)
qed

lemma strip_replicate_a: "strip (replicate n (CHR ''a'')) = replicate n (CHR ''a'')"
  by (simp add: strip_def isspace_def dropWhile_replicate)

text \<open>
  C1 at two inputs: a message of 3000 characters, where the cut falls inside the
  message and the system block is kept whole, and a short conversation, returned whole.
\<close>

theorem get_prompt_tail_truncation_witness:
  "get_prompt (replicate 3000 (CHR ''a'')) [] ''Be nice'' =
     ''<s>System: Be nice\<newline></s>'' @ replicate 2029 (CHR ''a'') @ ''\<newline></s><s>Assistant: ''
   \<and> get_prompt ''Bye'' [(''Hi'', ''Hello '')] [] =
     ''<s>Human: Hi\<newline></s><s>Assistant: Hello\<newline></s><s>Human: Bye\<newline></s><s>Assistant: ''"
proof -
  have a: "turns_portion [] (replicate 3000 (CHR ''a'')) =
      ''<s>Human: '' @ replicate 3000 (CHR ''a'') @ ''\<newline></s><s>Assistant: ''"
    by (simp add: turns_portion_def open_block_def strip_replicate_a)
  have b: "last_chars 2048 (''<s>Human: '' @ replicate 3000 (CHR ''a'') @ ''\<newline></s><s>Assistant: '')
      = replicate 2029 (CHR ''a'') @ ''\<newline></s><s>Assistant: ''"
    by (simp add: last_chars_def)
  have c: "turns_portion [(''Hi'', ''Hello '')] ''Bye'' =
     ''<s>Human: Hi\<newline></s><s>Assistant: Hello\<newline></s><s>Human: Bye\<newline></s><s>Assistant: ''"
    by (simp add: turns_portion_def open_block_def turn_block_def strip_def isspace_def)
  have d: "system_block ''Be nice'' = ''<s>System: Be nice\<newline></s>''"
    by (simp add: system_block_def strip_def isspace_def)
  have len: "2048 < length (turns_portion [] (replicate 3000 (CHR ''a'')))"
    by (simp add: a)
  have "get_prompt (replicate 3000 (CHR ''a'')) [] ''Be nice'' =
      system_block ''Be nice'' @ last_chars 2048 (turns_portion [] (replicate 3000 (CHR ''a'')))"
    using get_prompt_tail_truncation [of "replicate 3000 (CHR ''a'')" "[]" "''Be nice''"] len
    by simp
  then have long: "get_prompt (replicate 3000 (CHR ''a'')) [] ''Be nice'' =
     ''<s>System: Be nice\<newline></s>'' @ replicate 2029 (CHR ''a'') @ ''\<newline></s><s>Assistant: ''"
    by (simp only: a b d)
  have short: "get_prompt ''Bye'' [(''Hi'', ''Hello '')] [] =
     ''<s>Human: Hi\<newline></s><s>Assistant: Hello\<newline></s><s>Human: Bye\<newline></s><s>Assistant: ''"
    using get_prompt_tail_truncation [of "''Bye''" "[(''Hi'', ''Hello '')]" "[]"]
    by (simp add: c)
  show ?thesis
    using long short by (rule conjI)
qed

text \<open>
  Claim C9. For every message, history and system prompt, the string \<open>get_prompt\<close>
  returns ends with the unterminated assistant-turn opening marker \<open><s>Assistant: \<close>,
  also when the truncation to 2048 characters applies.
\<close>

theorem get_prompt_ends_with_cursor:
  "suffix ''<s>Assistant: '' (get_prompt m H s)"
proof -
  have "turns_portion H m =
      (concat (map turn_block H) @ ''<s>Human: '' @ strip m @ ''\<newline></s>'') @ ''<s>Assistant: ''"
    by (simp add: turns_portion_def open_block_def)
  moreover have "length ''<s>Assistant: '' \<le> (2048::nat)"
    by simp
  ultimately obtain pre where "slice_from (- 2048) (turns_portion H m) = pre @ ''<s>Assistant: ''"
    using slice_from_keeps_tail [of "''<s>Assistant: ''" 2048
        "concat (map turn_block H) @ ''<s>Human: '' @ strip m @ ''\<newline></s>''"]
    by auto
  then have "get_prompt m H s = ((if s = [] then [] else system_block s) @ pre) @ ''<s>Assistant: ''"
    by (simp add: get_prompt_turns)
  then show ?thesis
    unfolding suffix_def by blast
qed

text \<open>C9 at the message \<open>Hi\<close> with no history and no system prompt.\<close>

theorem get_prompt_ends_with_cursor_witness:
  "suffix ''<s>Assistant: '' (get_prompt ''Hi'' [] []) \<and>
   get_prompt ''Hi'' [] [] = ''<s>Human: Hi\<newline></s><s>Assistant: ''"
  using get_prompt_ends_with_cursor [of "''Hi''" "[]" "[]"]
  by (simp add: get_prompt_def slice_from_def strip_def isspace_def)

section \<open>Properties of model loading\<close>

text \<open>
  Claim C8. When the \<open>llama_cpp\<close> flag is not set and both \<open>load_in_8bit\<close> and
  \<open>load_in_4bit\<close> are set, \<open>create_llama2_model\<close> takes the 4-bit quantized loading
  path: the 4-bit flag is tested first, and the 8-bit flag is read only on the path
  taken when it is off.
\<close>

theorem create_llama2_model_4bit_precedence:
  assumes "\<not> truthy (config_get cfg ''llama_cpp'' (PBool False))"
    and "truthy (config_get cfg ''load_in_8bit'' (PBool True))"
    and "truthy (config_get cfg ''load_in_4bit'' (PBool False))"
  shows "create_llama2_model cfg = AutoGPTQ_from_quantized (config_get cfg ''model_name'' PNone)"
  using assms by (simp add: create_llama2_model_def Let_def)

text \<open>
  C8 at a configuration with no \<open>llama_cpp\<close> entry and both quantization flags on.
\<close>

theorem create_llama2_model_4bit_precedence_witness:
  "create_llama2_model
     [''model_name'' \<mapsto> PStr ''m'', ''load_in_8bit'' \<mapsto> PBool True,
      ''load_in_4bit'' \<mapsto> PBool True]
   = AutoGPTQ_from_quantized (PStr ''m'')"
  using create_llama2_model_4bit_precedence
    [of "[''model_name'' \<mapsto> PStr ''m'', ''load_in_8bit'' \<mapsto> PBool True,
          ''load_in_4bit'' \<mapsto> PBool True]"]
  by (simp add: config_get_def)

section \<open>Properties of the generation loops\<close>

subsection \<open>Strings\<close>

lemma length_split_first: "length (split_first sep s) \<le> length s"
  by (induction s) auto

lemma split_first_decomp:
  "str_contains sep s \<Longrightarrow> \<exists>rest. s = split_first sep s @ sep @ rest"
proof (induction s)
  case Nil
  then show ?case by simp
next
  case (Cons c cs)
  show ?case
  proof (cases "prefix sep (c # cs)")
    case True
    then show ?thesis by (auto simp: prefix_def)
  next
    case False
    with Cons show ?thesis by auto
  qed
qed

lemma split_first_leftmost:
  "s = pre @ sep @ rest \<Longrightarrow> length (split_first sep s) \<le> length pre"
proof (induction s arbitrary: pre)
  case Nil
  then show ?case by simp
next
  case (Cons c cs)
  show ?case
  proof (cases "prefix sep (c # cs)")
    case True
    then show ?thesis by simp
  next
    case False
    with Cons.prems obtain pre' where pre: "pre = c # pre'" and cs: "cs = pre' @ sep @ rest"
      by (cases pre) auto
    from Cons.IH [OF cs] False pre show ?thesis by simp
  qed
qed

subsection \<open>The llama.cpp loop and the streamer loop\<close>

lemma app_config_llama_cpp: "truthy (config_get (app_config a) ''llama_cpp'' PNone)"
  by (simp add: app_config_def config_get_def)



lemma accumulated_Nil: "accumulated detok (a, p) [] = a"
  by (simp add: accumulated_def)

lemma accumulated_Cons:
  "accumulated detok (a, p) (t # ts) =
     accumulated detok (if t \<noteq> TokStr ''</s>'' then decode_step detok a p t else (a, p)) ts"
  by (simp add: accumulated_def)

lemma decode_step_grows: "decode_step detok a p t = (a', p') \<Longrightarrow> length a \<le> length a'"
  by (auto simp: decode_step_def split: option.splits)

lemma llama_cpp_loop_marker_emits:
  assumes "k < length toks"
    and "\<forall>j<k. toks ! j \<noteq> TokStr ''</s>'' \<and> toks ! j \<noteq> eos \<and>
           \<not> str_contains ''Human:'' (accumulated detok (a, p) (take (Suc j) toks))"
    and "str_contains ''Human:'' (accumulated detok (a, p) (take (Suc k) toks))"
    and "\<not> str_contains ''Human:'' a"
  shows "length (llama_cpp_loop detok eos a p toks) = Suc k \<and>
         llama_cpp_loop detok eos a p toks ! k =
           split_first ''Human:'' (accumulated detok (a, p) (take (Suc k) toks)) \<and>
         (\<forall>j<k. llama_cpp_loop detok eos a p toks ! j =
                  accumulated detok (a, p) (take (Suc j) toks))"
  using assms
proof (induction toks arbitrary: a p k)
  case Nil
  then show ?case by simp
next
  case (Cons t ts)
  obtain a' p' where step: "decode_step detok a p t = (a', p')"
    by (cases "decode_step detok a p t") auto
  show ?case
  proof (cases k)
    case 0
    have notend: "t \<noteq> TokStr ''</s>''"
      using Cons.prems(3,4) 0 by (auto simp: accumulated_Cons accumulated_Nil)
    then have "str_contains ''Human:'' a'"
      using Cons.prems(3) 0 step by (simp add: accumulated_Cons accumulated_Nil)
    then show ?thesis
      using 0 notend step by (simp add: accumulated_Cons accumulated_Nil)
  next
    case (Suc i)
    have first: "t \<noteq> TokStr ''</s>'' \<and> t \<noteq> eos \<and>
        \<not> str_contains ''Human:'' (accumulated detok (a, p) (take (Suc 0) (t # ts)))"
      using Cons.prems(2) Suc by force
    then have notend: "t \<noteq> TokStr ''</s>''" and noteos: "t \<noteq> eos"
      by simp_all
    have nomark: "\<not> str_contains ''Human:'' a'"
      using first notend step by (auto simp: accumulated_Cons accumulated_Nil)
    have loop_eq: "llama_cpp_loop detok eos a p (t # ts) =
        a' # llama_cpp_loop detok eos a' p' ts"
      using notend noteos nomark step by simp
    have acc_eq: "accumulated detok (a, p) (t # xs) = accumulated detok (a', p') xs" for xs
      using notend step by (simp add: accumulated_Cons)
    have acc0: "accumulated detok (a, p) (take (Suc 0) (t # ts)) = a'"
      using notend step by (simp add: accumulated_Cons accumulated_Nil)
    have i: "i < length ts"
      using Cons.prems(1) Suc by simp
    have before: "\<forall>j<i. ts ! j \<noteq> TokStr ''</s>'' \<and> ts ! j \<noteq> eos \<and>
        \<not> str_contains ''Human:'' (accumulated detok (a', p') (take (Suc j) ts))"
    proof (intro allI impI)
      fix j assume "j < i"
      then have "Suc j < k" using Suc by simp
      with Cons.prems(2) have "(t # ts) ! Suc j \<noteq> TokStr ''</s>'' \<and> (t # ts) ! Suc j \<noteq> eos \<and>
          \<not> str_contains ''Human:'' (accumulated detok (a, p) (take (Suc (Suc j)) (t # ts)))"
        by blast
      then show "ts ! j \<noteq> TokStr ''</s>'' \<and> ts ! j \<noteq> eos \<and>
          \<not> str_contains ''Human:'' (accumulated detok (a', p') (take (Suc j) ts))"
        by (simp add: acc_eq)
    qed
    have at: "str_contains ''Human:'' (accumulated detok (a', p') (take (Suc i) ts))"
      using Cons.prems(3) Suc by (simp add: acc_eq)
    note ih = Cons.IH [OF i before at nomark]
    from ih have len: "length (llama_cpp_loop detok eos a' p' ts) = Suc i"
      by blast
    from ih have last_chunk: "llama_cpp_loop detok eos a' p' ts ! i =
        split_first ''Human:'' (accumulated detok (a', p') (take (Suc i) ts))"
      by blast
    from ih have earlier: "\<forall>j<i. llama_cpp_loop detok eos a' p' ts ! j =
        accumulated detok (a', p') (take (Suc j) ts)"
      by blast
    have "\<forall>j<Suc i. (a' # llama_cpp_loop detok eos a' p' ts) ! j =
        accumulated detok (a, p) (take (Suc j) (t # ts))"
    proof (intro allI impI)
      fix j assume j: "j < Suc i"
      show "(a' # llama_cpp_loop detok eos a' p' ts) ! j =
          accumulated detok (a, p) (take (Suc j) (t # ts))"
      proof (cases j)
        case 0
        then show ?thesis using acc0 by simp
      next
        case (Suc j')
        with j have "j' < i" by simp
        with earlier Suc show ?thesis by (simp add: acc_eq)
      qed
    qed
    then show ?thesis
      unfolding Suc loop_eq using len last_chunk by (simp add: acc_eq)
  qed
qed

lemma llama_cpp_loop_lengths:
  assumes "i < length (llama_cpp_loop detok eos a p toks)"
    and "\<not> str_contains ''Human:'' a"
  shows "length ((a # llama_cpp_loop detok eos a p toks) ! i)
           \<le> length (llama_cpp_loop detok eos a p toks ! i)
       \<or> (Suc i = length (llama_cpp_loop detok eos a p toks) \<and>
          str_contains ''Human:'' (accumulated detok (a, p) (take (Suc i) toks)) \<and>
          llama_cpp_loop detok eos a p toks ! i =
            split_first ''Human:'' (accumulated detok (a, p) (take (Suc i) toks)))"
  using assms
proof (induction toks arbitrary: a p i)
  case Nil
  then show ?case by simp
next
  case (Cons t ts)
  obtain a' p' where step: "decode_step detok a p t = (a', p')"
    by (cases "decode_step detok a p t") auto
  note grows = decode_step_grows [OF step]
  show ?case
  proof (cases "t = TokStr ''</s>''")
    case True
    with Cons.prems show ?thesis by simp
  next
    case notend: False
    show ?thesis
    proof (cases "str_contains ''Human:'' a'")
      case True
      with Cons.prems notend step show ?thesis
        by (simp add: accumulated_Cons accumulated_Nil)
    next
      case nomark: False
      show ?thesis
      proof (cases "t = eos")
        case True
        with Cons.prems notend step nomark grows show ?thesis by simp
      next
        case False
        show ?thesis
        proof (cases i)
          case 0
          with notend step nomark False grows show ?thesis by simp
        next
          case (Suc j)
          have loop_eq: "llama_cpp_loop detok eos a p (t # ts) =
              a' # llama_cpp_loop detok eos a' p' ts"
            using notend step nomark False by simp
          have acc_eq: "accumulated detok (a, p) (take (Suc (Suc j)) (t # ts)) =
              accumulated detok (a', p') (take (Suc j) ts)"
            using notend step by (simp add: accumulated_Cons)
          have "j < length (llama_cpp_loop detok eos a' p' ts)"
            using Cons.prems(1) Suc loop_eq by simp
          from Cons.IH [OF this nomark] show ?thesis
          proof
            assume "length ((a' # llama_cpp_loop detok eos a' p' ts) ! j)
                \<le> length (llama_cpp_loop detok eos a' p' ts ! j)"
            then show ?thesis
              unfolding Suc loop_eq by simp
          next
            assume r: "Suc j = length (llama_cpp_loop detok eos a' p' ts) \<and>
                str_contains ''Human:'' (accumulated detok (a', p') (take (Suc j) ts)) \<and>
                llama_cpp_loop detok eos a' p' ts ! j =
                  split_first ''Human:'' (accumulated detok (a', p') (take (Suc j) ts))"
            from r have len: "length (llama_cpp_loop detok eos a' p' ts) = Suc j"
              by simp
            from r have rest: "str_contains ''Human:'' (accumulated detok (a', p') (take (Suc j) ts))"
              "llama_cpp_loop detok eos a' p' ts ! j =
                  split_first ''Human:'' (accumulated detok (a', p') (take (Suc j) ts))"
              by blast+
            show ?thesis
              unfolding Suc loop_eq acc_eq using len rest by simp
          qed
        qed
      qed
    qed
  qed
qed

lemma streamer_loop_lengths:
  "i < length (streamer_loop outs texts) \<Longrightarrow>
     length ((concat outs # streamer_loop outs texts) ! i) \<le> length (streamer_loop outs texts ! i)"
proof (induction texts arbitrary: outs i)
  case Nil
  then show ?case by simp
next
  case (Cons x xs)
  show ?case
  proof (cases i)
    case 0
    then show ?thesis by simp
  next
    case (Suc j)
    with Cons.prems have "j < length (streamer_loop (outs @ [x]) xs)" by simp
    from Cons.IH [OF this] Suc show ?thesis by simp
  qed
qed

subsection \<open>The worked examples, evaluated\<close>

lemma demo_generate_llama:
  "generate (app_config demo_app) demo_engine p n t tp tk = [''Sure. '', ''Sure. Hum'', ''Sure. '']"
  by (simp add: generate_def app_config_llama_cpp demo_engine_def decode_step_def
      demo_detokenize_def)

lemma demo_generate_hf:
  "generate Map.empty demo_engine p n t tp tk = [''Sure'', ''Sure'', ''Sure.'']"
  by (simp add: generate_def config_get_def demo_engine_def)

lemma demo_tokens:
  "model_generate demo_engine inputs tp tk t = [TokId 1, TokId 2, TokId 3, TokId 1]"
  by (simp add: demo_engine_def)

lemma demo_answers:
  "accumulated (model_detokenize demo_engine) ([], []) [TokId 1] = ''Sure. ''"
  "accumulated (model_detokenize demo_engine) ([], []) [TokId 1, TokId 2] = ''Sure. Hum''"
  "accumulated (model_detokenize demo_engine) ([], []) [TokId 1, TokId 2, TokId 3] =
     ''Sure. Human: ignore this''"
  by (simp_all add: accumulated_def demo_engine_def decode_step_def demo_detokenize_def)

lemma demo_eos: "model_token_eos demo_engine = TokId 9"
  by (simp add: demo_engine_def)


lemma demo_accumulated_Suc:
  "accumulated (model_detokenize demo_engine) ([], [])
     (take (Suc (Suc (Suc 0))) (model_generate demo_engine (model_tokenize demo_engine p) tp tk t))
   = ''Sure. Human: ignore this''"
  by (simp add: accumulated_def demo_engine_def decode_step_def demo_detokenize_def)

lemma demo_run: "run (app_config demo_app) (llama2_wrapper demo_app) m h s n t tp tk
    = [''Sure. '', ''Sure. Hum'', ''Sure. '']"
  using demo_generate_llama by (simp add: run_def demo_app_def)

lemma run_silent:
  "run (app_config silent_app) (llama2_wrapper silent_app) m h s n t tp tk = []"
  by (simp add: run_def generate_def app_config_llama_cpp silent_app_def silent_engine_def)

lemma silent_ceiling: "MAX_MAX_NEW_TOKENS silent_app = 2048"
  by (simp add: silent_app_def)

lemma demo_ceiling: "MAX_MAX_NEW_TOKENS demo_app = 2048"
  by (simp add: demo_app_def)

lemma demo_input_token_length:
  "get_input_token_length (app_config demo_app) (llama2_wrapper demo_app) m h s =
     length (get_prompt m h s)"
  by (simp add: get_input_token_length_def get_token_length_def app_config_llama_cpp
      demo_app_def demo_engine_def)

lemma demo_prompt_length_checked:
  "length (get_prompt ''Hi'' [(''Hi'', [])] (replicate 4100 (CHR ''a''))) = 4183"
  by (simp add: get_prompt_def slice_from_def strip_replicate_a strip_def isspace_def)

lemma demo_prompt_length_generated:
  "length (get_prompt ''Hi'' [] (replicate 4100 (CHR ''a''))) = 4147"
  by (simp add: get_prompt_def slice_from_def strip_replicate_a strip_def isspace_def)

subsection \<open>The chunks of one request\<close>



text \<open>
  Claim C4. In the llama.cpp branch, let \<open>answer n\<close> be the accumulated answer after
  the first \<open>n\<close> tokens. Let token \<open>k\<close> be the first at which the accumulated answer
  contains the marker \<open>Human:\<close>, no earlier token being \<open>'</s>'\<close> or the end-of-stream id.
  Then the stream has exactly \<open>k + 1\<close> chunks: the first \<open>k\<close> are the accumulated
  answers, and the last one is the text of \<open>answer (k + 1)\<close> strictly before the first
  occurrence of the marker. That is, \<open>answer (k + 1)\<close> is that chunk, then the marker,
  then a rest, and no other way of splitting it around the marker has a shorter text
  before it.
\<close>

theorem generate_human_marker_stop:
  assumes "truthy (config_get cfg ''llama_cpp'' PNone)"
  shows "let toks = model_generate eng (model_tokenize eng prompt) top_p top_k temperature;
             cs = generate cfg eng prompt max_new_tokens temperature top_p top_k;
             answer = (\<lambda>n. accumulated (model_detokenize eng) ([], []) (take n toks))
         in k < length toks \<and>
            (\<forall>j<k. toks ! j \<noteq> TokStr ''</s>'' \<and> toks ! j \<noteq> model_token_eos eng \<and>
                   \<not> str_contains ''Human:'' (answer (Suc j))) \<and>
            str_contains ''Human:'' (answer (Suc k)) \<longrightarrow>
              length cs = Suc k \<and>
              (\<forall>j<k. cs ! j = answer (Suc j)) \<and>
              cs ! k = split_first ''Human:'' (answer (Suc k)) \<and>
              (\<exists>rest. answer (Suc k) = cs ! k @ ''Human:'' @ rest) \<and>
              (\<forall>pre rest. answer (Suc k) = pre @ ''Human:'' @ rest \<longrightarrow>
                 length (cs ! k) \<le> length pre)"
proof -
  define toks where "toks = model_generate eng (model_tokenize eng prompt) top_p top_k temperature"
  define cs where "cs = generate cfg eng prompt max_new_tokens temperature top_p top_k"
  define answer where "answer = (\<lambda>n. accumulated (model_detokenize eng) ([], []) (take n toks))"
  have cs_loop: "cs = llama_cpp_loop (model_detokenize eng) (model_token_eos eng) [] [] toks"
    using assms by (simp add: cs_def toks_def generate_def)
  have main: "k < length toks \<and>
        (\<forall>j<k. toks ! j \<noteq> TokStr ''</s>'' \<and> toks ! j \<noteq> model_token_eos eng \<and>
               \<not> str_contains ''Human:'' (answer (Suc j))) \<and>
        str_contains ''Human:'' (answer (Suc k)) \<longrightarrow>
        length cs = Suc k \<and>
        (\<forall>j<k. cs ! j = answer (Suc j)) \<and>
        cs ! k = split_first ''Human:'' (answer (Suc k)) \<and>
        (\<exists>rest. answer (Suc k) = cs ! k @ ''Human:'' @ rest) \<and>
        (\<forall>pre rest. answer (Suc k) = pre @ ''Human:'' @ rest \<longrightarrow> length (cs ! k) \<le> length pre)"
  proof (intro impI, elim conjE)
    assume k: "k < length toks"
      and before: "\<forall>j<k. toks ! j \<noteq> TokStr ''</s>'' \<and> toks ! j \<noteq> model_token_eos eng \<and>
               \<not> str_contains ''Human:'' (answer (Suc j))"
      and mark: "str_contains ''Human:'' (answer (Suc k))"
    have stop: "length cs = Suc k \<and>
        cs ! k = split_first ''Human:'' (answer (Suc k)) \<and>
        (\<forall>j<k. cs ! j = answer (Suc j))"
      using llama_cpp_loop_marker_emits
        [of k toks "model_token_eos eng" "model_detokenize eng" "[]" "[]"] k before mark
      unfolding cs_loop answer_def by simp
    moreover have "\<exists>rest. answer (Suc k) = split_first ''Human:'' (answer (Suc k)) @ ''Human:'' @ rest"
      using split_first_decomp [OF mark] .
    moreover have "\<forall>pre rest. answer (Suc k) = pre @ ''Human:'' @ rest \<longrightarrow>
        length (split_first ''Human:'' (answer (Suc k))) \<le> length pre"
      using split_first_leftmost by blast
    ultimately show "length cs = Suc k \<and>
        (\<forall>j<k. cs ! j = answer (Suc j)) \<and>
        cs ! k = split_first ''Human:'' (answer (Suc k)) \<and>
        (\<exists>rest. answer (Suc k) = cs ! k @ ''Human:'' @ rest) \<and>
        (\<forall>pre rest. answer (Suc k) = pre @ ''Human:'' @ rest \<longrightarrow> length (cs ! k) \<le> length pre)"
      by simp
  qed
  show ?thesis
    using main unfolding Let_def toks_def cs_def answer_def .
qed

text \<open>
  C4 at the backend whose tokens accumulate to \<open>Sure. Human: ignore this\<close>: the stream
  has three chunks, the third is \<open>Sure. \<close>, and one token is left unread.
\<close>

theorem generate_human_marker_stop_witness:
  "generate (app_config demo_app) demo_engine ''Hi'' 1024 0.8 0.95 50
     = [''Sure. '', ''Sure. Hum'', ''Sure. '']
   \<and> length (generate (app_config demo_app) demo_engine ''Hi'' 1024 0.8 0.95 50)
     = Suc (Suc (Suc 0))
   \<and> generate (app_config demo_app) demo_engine ''Hi'' 1024 0.8 0.95 50 ! Suc (Suc 0)
     = split_first ''Human:'' ''Sure. Human: ignore this''"
  using generate_human_marker_stop
    [where cfg = "app_config demo_app" and eng = demo_engine and prompt = "''Hi''"
       and max_new_tokens = 1024 and temperature = "0.8" and top_p = "0.95" and top_k = 50
       and k = "Suc (Suc 0)", OF app_config_llama_cpp]
  by (simp add: Let_def demo_tokens demo_answers demo_eos All_less_Suc demo_generate_llama)

text \<open>
  Claim C5. For every request, each chunk yielded by \<open>generate\<close> is at least as long as
  the chunk before it, with one exception: the step at which the accumulated answer
  \<open>raw\<close> of the llama.cpp branch contains the marker \<open>Human:\<close>. That step yields the last
  chunk, which is \<open>raw\<close> cut before the marker and so at most as long as \<open>raw\<close>.
\<close>

theorem generate_chunk_lengths:
  "let toks = model_generate eng (model_tokenize eng prompt) top_p top_k temperature;
       cs = generate cfg eng prompt max_new_tokens temperature top_p top_k;
       raw = accumulated (model_detokenize eng) ([], []) (take (Suc (Suc i)) toks)
   in Suc i < length cs \<longrightarrow>
        length (cs ! i) \<le> length (cs ! Suc i) \<or>
        (truthy (config_get cfg ''llama_cpp'' PNone) \<and>
         Suc (Suc i) = length cs \<and>
         str_contains ''Human:'' raw \<and>
         cs ! Suc i = split_first ''Human:'' raw \<and>
         length (cs ! Suc i) \<le> length raw)"
proof -
  define toks where "toks = model_generate eng (model_tokenize eng prompt) top_p top_k temperature"
  define cs where "cs = generate cfg eng prompt max_new_tokens temperature top_p top_k"
  define raw where "raw = accumulated (model_detokenize eng) ([], []) (take (Suc (Suc i)) toks)"
  have step: "length (cs ! i) \<le> length (cs ! Suc i) \<or>
        (truthy (config_get cfg ''llama_cpp'' PNone) \<and> Suc (Suc i) = length cs \<and>
         str_contains ''Human:'' raw \<and> cs ! Suc i = split_first ''Human:'' raw \<and>
         length (cs ! Suc i) \<le> length raw)"
    if i: "Suc i < length cs"
  proof (cases "truthy (config_get cfg ''llama_cpp'' PNone)")
    case True
    then have cs_loop: "cs = llama_cpp_loop (model_detokenize eng) (model_token_eos eng) [] [] toks"
      by (simp add: cs_def toks_def generate_def)
    have "length (([] # cs) ! Suc i) \<le> length (cs ! Suc i) \<or>
        (Suc (Suc i) = length cs \<and> str_contains ''Human:'' raw \<and>
         cs ! Suc i = split_first ''Human:'' raw)"
      using llama_cpp_loop_lengths
        [of "Suc i" "model_detokenize eng" "model_token_eos eng" "[]" "[]" toks] i
      unfolding cs_loop raw_def by simp
    then show ?thesis
    proof
      assume "length (([] # cs) ! Suc i) \<le> length (cs ! Suc i)"
      then show ?thesis by simp
    next
      assume r: "Suc (Suc i) = length cs \<and> str_contains ''Human:'' raw \<and>
         cs ! Suc i = split_first ''Human:'' raw"
      then have "length (cs ! Suc i) \<le> length raw"
        using length_split_first [of "''Human:''" raw] by simp
      with r True show ?thesis by blast
    qed
  next
    case False
    then have cs_loop: "cs = streamer_loop []
        (streamer_texts eng prompt max_new_tokens top_p top_k temperature)"
      by (simp add: cs_def generate_def)
    have "length ((concat [] # cs) ! Suc i) \<le> length (cs ! Suc i)"
      using streamer_loop_lengths
        [of "Suc i" "[]" "streamer_texts eng prompt max_new_tokens top_p top_k temperature"] i
      unfolding cs_loop by simp
    then show ?thesis by simp
  qed
  then have main: "Suc i < length cs \<longrightarrow>
        length (cs ! i) \<le> length (cs ! Suc i) \<or>
        (truthy (config_get cfg ''llama_cpp'' PNone) \<and> Suc (Suc i) = length cs \<and>
         str_contains ''Human:'' raw \<and> cs ! Suc i = split_first ''Human:'' raw \<and>
         length (cs ! Suc i) \<le> length raw)"
    by blast
  show ?thesis
    using main unfolding Let_def toks_def cs_def raw_def .
qed

text \<open>
  C5 at the same backend: in the llama.cpp branch the chunks have lengths 6, 9 and 6,
  the last one being the cut answer; in the transformers branch the lengths do not
  decrease.
\<close>

theorem generate_chunk_lengths_witness:
  "map length (generate (app_config demo_app) demo_engine ''Hi'' 1024 0.8 0.95 50) = [6, 9, 6] \<and>
   length (generate (app_config demo_app) demo_engine ''Hi'' 1024 0.8 0.95 50 ! Suc 1)
     \<le> length ''Sure. Human: ignore this'' \<and>
   length (generate Map.empty demo_engine ''Hi'' 1024 0.8 0.95 50 ! 0)
     \<le> length (generate Map.empty demo_engine ''Hi'' 1024 0.8 0.95 50 ! Suc 0)"
  using generate_chunk_lengths
    [where cfg = "app_config demo_app" and eng = demo_engine and prompt = "''Hi''"
       and max_new_tokens = 1024 and temperature = "0.8" and top_p = "0.95" and top_k = 50
       and i = 1]
    generate_chunk_lengths
    [where cfg = Map.empty and eng = demo_engine and prompt = "''Hi''"
       and max_new_tokens = 1024 and temperature = "0.8" and top_p = "0.95" and top_k = 50
       and i = 0]
  by (simp add: Let_def demo_generate_llama demo_generate_hf demo_accumulated_Suc)

section \<open>Properties of the streaming session\<close>

text \<open>
  Claim C6. For every request whose \<open>max_new_tokens\<close> is greater than
  \<open>MAX_MAX_NEW_TOKENS\<close>, the session's \<open>generate\<close> raises \<open>ValueError\<close> with no transcript
  yielded and no call of the wrapper made.
\<close>

theorem session_generate_rejects_over_ceiling:
  assumes "max_new_tokens > MAX_MAX_NEW_TOKENS a"
  shows "session_generate a message history_with_input system_prompt max_new_tokens
           temperature top_p top_k
         = \<lparr>yielded = [], raised = Some ValueError, run_calls = []\<rparr>"
  using assms by (simp add: session_generate_def)

text \<open>
  C6 at \<open>max_new_tokens = 2049\<close> with the ceiling at 2048.
\<close>

theorem session_generate_rejects_over_ceiling_witness:
  "session_generate silent_app
     ''Hi'' [(''Hi'', [])] [] 2049 1 0.95 50
   = \<lparr>yielded = [], raised = Some ValueError, run_calls = []\<rparr>"
  using session_generate_rejects_over_ceiling
    [where a = silent_app
       and max_new_tokens = 2049 and message = "''Hi''" and history_with_input = "[(''Hi'', [])]"
       and system_prompt = "[]" and temperature = 1 and top_p = "0.95" and top_k = 50]
  by (simp add: silent_ceiling)

text \<open>
  Claim C7, as amended. The session's \<open>generate\<close> checks one thing, once, before
  anything else: that \<open>max_new_tokens\<close> is at most \<open>MAX_MAX_NEW_TOKENS\<close>. It raises
  \<open>ValueError\<close>, with nothing yielded and no call of the wrapper, exactly when that
  fails, whatever \<open>temperature\<close>, \<open>top_p\<close> and \<open>top_k\<close> are; otherwise it hands all four
  values to the wrapper unchanged.
\<close>

theorem session_generate_validates_only_ceiling:
  "raised (session_generate a message history_with_input system_prompt max_new_tokens
       temperature top_p top_k)
     = (if max_new_tokens > MAX_MAX_NEW_TOKENS a then Some ValueError else None)
   \<and> (max_new_tokens > MAX_MAX_NEW_TOKENS a \<longrightarrow>
        yielded (session_generate a message history_with_input system_prompt max_new_tokens
          temperature top_p top_k) = []
        \<and> run_calls (session_generate a message history_with_input system_prompt
          max_new_tokens temperature top_p top_k) = [])
   \<and> (max_new_tokens \<le> MAX_MAX_NEW_TOKENS a \<longrightarrow>
        run_calls (session_generate a message history_with_input system_prompt
          max_new_tokens temperature top_p top_k)
        = [(message, butlast history_with_input, system_prompt, max_new_tokens,
            temperature, top_p, top_k)])"
  by (simp add: session_generate_def Let_def)

text \<open>
  The amended C7 at \<open>max_new_tokens = 4096\<close> (rejected) and \<open>1024\<close> (passed on), with
  the ceiling at 2048.
\<close>

theorem session_generate_validates_only_ceiling_witness:
  "raised (session_generate demo_app ''Hi'' [(''Hi'', [])] [] 4096 1 0.95 50) = Some ValueError
   \<and> yielded (session_generate demo_app ''Hi'' [(''Hi'', [])] [] 4096 1 0.95 50) = []
   \<and> run_calls (session_generate demo_app ''Hi'' [(''Hi'', [])] [] 4096 1 0.95 50) = []
   \<and> raised (session_generate demo_app ''Hi'' [(''Hi'', [])] [] 1024 1 0.95 50) = None
   \<and> run_calls (session_generate demo_app ''Hi'' [(''Hi'', [])] [] 1024 1 0.95 50)
       = [(''Hi'', [], [], 1024, 1, 0.95, 50)]"
  using session_generate_validates_only_ceiling
    [where a = demo_app and message = "''Hi''" and history_with_input = "[(''Hi'', [])]"
       and system_prompt = "[]" and max_new_tokens = 4096 and temperature = 1
       and top_p = "0.95" and top_k = 50]
    session_generate_validates_only_ceiling
    [where a = demo_app and message = "''Hi''" and history_with_input = "[(''Hi'', [])]"
       and system_prompt = "[]" and max_new_tokens = 1024 and temperature = 1
       and top_p = "0.95" and top_k = 50]
  by (simp add: demo_app_def)

text \<open>
  Claim C7 as stated fails: with \<open>top_k = 0\<close>, and also with \<open>max_new_tokens = 0\<close>,
  \<open>temperature = 0\<close>, \<open>top_p = 2\<close> and \<open>top_k = 0\<close> together, the request is not rejected and
  the generated answer is streamed.
\<close>

theorem session_generate_invalid_config_counterexample:
  "raised (session_generate demo_app ''Hi'' [(''Hi'', [])] [] 1024 1 0.95 0) = None
   \<and> yielded (session_generate demo_app ''Hi'' [(''Hi'', [])] [] 1024 1 0.95 0)
       = [[(''Hi'', ''Sure. '')], [(''Hi'', ''Sure. Hum'')], [(''Hi'', ''Sure. '')]]
   \<and> raised (session_generate demo_app ''Hi'' [(''Hi'', [])] [] 0 0 2 0) = None
   \<and> yielded (session_generate demo_app ''Hi'' [(''Hi'', [])] [] 0 0 2 0)
       = [[(''Hi'', ''Sure. '')], [(''Hi'', ''Sure. Hum'')], [(''Hi'', ''Sure. '')]]"
  by (simp add: session_generate_def demo_run) (simp add: demo_app_def)

text \<open>
  Claim C10. For every request whose \<open>max_new_tokens\<close> is at most
  \<open>MAX_MAX_NEW_TOKENS\<close>, the session's \<open>generate\<close> yields at least one transcript and
  raises nothing; when the wrapper's stream yields no chunk, it yields exactly the one
  transcript \<open>history + [(message, "")]\<close>.
\<close>

theorem session_generate_never_empty:
  assumes "max_new_tokens \<le> MAX_MAX_NEW_TOKENS a"
  shows "yielded (session_generate a message history_with_input system_prompt max_new_tokens
           temperature top_p top_k) \<noteq> []
       \<and> raised (session_generate a message history_with_input system_prompt max_new_tokens
           temperature top_p top_k) = None
       \<and> (run (app_config a) (llama2_wrapper a) message (butlast history_with_input)
              system_prompt max_new_tokens temperature top_p top_k = [] \<longrightarrow>
            yielded (session_generate a message history_with_input system_prompt max_new_tokens
              temperature top_p top_k) = [butlast history_with_input @ [(message, [])]])"
  using assms by (simp add: session_generate_def Let_def split: list.split)

text \<open>
  C10 at a backend that hands out nothing: the one transcript has the empty answer.
\<close>

theorem session_generate_never_empty_witness:
  "yielded (session_generate
      silent_app
      ''Bye'' [(''Hi'', ''Hello''), (''Bye'', [])] [] 1024 1 0.95 50)
   = [[(''Hi'', ''Hello''), (''Bye'', [])]]"
  using session_generate_never_empty
    [where a = silent_app
       and max_new_tokens = 1024 and message = "''Bye''"
       and history_with_input = "[(''Hi'', ''Hello''), (''Bye'', [])]"
       and system_prompt = "[]" and temperature = 1 and top_p = "0.95" and top_k = 50]
  by (simp add: run_silent silent_ceiling)

subsection \<open>The input length check and the event chains\<close>

lemma submit_event_gate:
  assumes "MAX_INPUT_TOKEN_LENGTH <
      get_input_token_length (app_config a) (llama2_wrapper a)
        (textbox u) (chatbot u @ [(textbox u, [])]) (system_prompt_box u)"
  shows "shown_errors (submit_event a u) =
           [GrError (''The accumulated input is too long (''
              @ str_of_nat (get_input_token_length (app_config a) (llama2_wrapper a)
                  (textbox u) (chatbot u @ [(textbox u, [])]) (system_prompt_box u))
              @ '' > '' @ str_of_nat MAX_INPUT_TOKEN_LENGTH
              @ ''). Clear your chat history and try again.'')]
       \<and> streamed (submit_event a u) = []
       \<and> engine_calls (submit_event a u) = []"
  using assms
  by (simp add: submit_event_def clear_and_save_textbox_def display_input_def
      check_input_token_length_def Let_def del: str_of_nat.simps)

lemma demo_submit_rejected:
  "submit_event demo_app fresh_ui =
     \<lparr>shown_errors = [GrError
        ''The accumulated input is too long (4183 > 4000). Clear your chat history and try again.''],
      streamed = [], engine_calls = [],
      ui_after = fresh_ui\<lparr>textbox := [], saved_input := ''Hi'', chatbot := [(''Hi'', [])]\<rparr>\<rparr>"
  by (simp add: submit_event_def clear_and_save_textbox_def display_input_def
      check_input_token_length_def Let_def demo_input_token_length demo_prompt_length_checked
      MAX_INPUT_TOKEN_LENGTH_def fresh_ui_def)

lemma demo_retry_after_rejection:
  "retry_event demo_app
     (fresh_ui\<lparr>textbox := [], saved_input := ''Hi'', chatbot := [(''Hi'', [])]\<rparr>) =
     \<lparr>shown_errors = [],
      streamed = [[(''Hi'', ''Sure. '')], [(''Hi'', ''Sure. Hum'')], [(''Hi'', ''Sure. '')]],
      engine_calls = [(''Hi'', [], replicate 4100 (CHR ''a''), 1024, 1, 0.95, 50)],
      ui_after = fresh_ui\<lparr>textbox := [], saved_input := ''Hi'',
                   chatbot := [(''Hi'', ''Sure. '')]\<rparr>\<rparr>"
  by (simp add: retry_event_def delete_prev_fn_def display_input_def generate_step_def
      session_generate_def demo_run demo_ceiling fresh_ui_def)

text \<open>
  Claim C2 at a concrete session. The system prompt has 4100 characters and the
  tokenizer makes one token per character, so the input token length is above
  \<open>MAX_INPUT_TOKEN_LENGTH\<close>, with or without the placeholder turn. Submitting \<open>Hi\<close> shows
  the length error and makes no call of the wrapper (\<open>submit_event_gate\<close>: the submit
  chain does so whenever the length it measures, that of the prompt built from the
  history with the placeholder turn, is above the ceiling). Pressing Retry next runs
  \<open>generate\<close> on the same message and
  system prompt with no length check: no error is shown, the wrapper is called and the
  generated chunks are streamed.
\<close>

theorem retry_event_skips_length_check:
  "MAX_INPUT_TOKEN_LENGTH <
     get_input_token_length (app_config demo_app) (llama2_wrapper demo_app)
       ''Hi'' [(''Hi'', [])] (replicate 4100 (CHR ''a''))
   \<and> MAX_INPUT_TOKEN_LENGTH <
     get_input_token_length (app_config demo_app) (llama2_wrapper demo_app)
       ''Hi'' [] (replicate 4100 (CHR ''a''))
   \<and> shown_errors (submit_event demo_app fresh_ui) =
       [GrError
         ''The accumulated input is too long (4183 > 4000). Clear your chat history and try again.'']
   \<and> engine_calls (submit_event demo_app fresh_ui) = []
   \<and> chatbot (ui_after (submit_event demo_app fresh_ui)) = [(''Hi'', [])]
   \<and> shown_errors (retry_event demo_app (ui_after (submit_event demo_app fresh_ui))) = []
   \<and> engine_calls (retry_event demo_app (ui_after (submit_event demo_app fresh_ui))) =
       [(''Hi'', [], replicate 4100 (CHR ''a''), 1024, 1, 0.95, 50)]
   \<and> streamed (retry_event demo_app (ui_after (submit_event demo_app fresh_ui))) =
       [[(''Hi'', ''Sure. '')], [(''Hi'', ''Sure. Hum'')], [(''Hi'', ''Sure. '')]]"
proof -
  have len: "MAX_INPUT_TOKEN_LENGTH <
     get_input_token_length (app_config demo_app) (llama2_wrapper demo_app)
       ''Hi'' [(''Hi'', [])] (replicate 4100 (CHR ''a''))
   \<and> MAX_INPUT_TOKEN_LENGTH <
     get_input_token_length (app_config demo_app) (llama2_wrapper demo_app)
       ''Hi'' [] (replicate 4100 (CHR ''a''))"
    by (simp add: demo_input_token_length demo_prompt_length_checked
        demo_prompt_length_generated MAX_INPUT_TOKEN_LENGTH_def)
  have after: "ui_after (submit_event demo_app fresh_ui) =
      fresh_ui\<lparr>textbox := [], saved_input := ''Hi'', chatbot := [(''Hi'', [])]\<rparr>"
    by (simp only: demo_submit_rejected outcome.simps)
  show ?thesis
    unfolding after
    using len by (simp add: demo_submit_rejected demo_retry_after_rejection)
qed

end
